theory Spec2Isabelle
  imports Main
begin

section \<open>The grammar graph: nodes, headers and the memory that holds them\<close>

text \<open>
  A Go pointer \<^verbatim>\<open>*Node\<close> or \<^verbatim>\<open>*Header\<close> is either \<^verbatim>\<open>nil\<close> or the address of an
  allocated object. Addresses are natural numbers, \<^verbatim>\<open>nil\<close> is \<open>None\<close>.
\<close>

type_synonym node_ptr = "nat option"
type_synonym header_ptr = "nat option"

text \<open>
  \<^verbatim>\<open>type Node struct { Terminal bool; Tsym string; Nsym *Header; Suc *Node; Alt *Node }\<close>.
  The field \<^verbatim>\<open>Suc\<close> is called \<open>Suc_ptr\<close> here, since \<open>Suc\<close> is the successor of
  natural numbers.
\<close>

record Node =
  Terminal :: bool
  Tsym :: string
  Nsym :: header_ptr
  Suc_ptr :: node_ptr
  Alt :: node_ptr

text \<open>\<^verbatim>\<open>type Header struct { Sym string; Entry *Node }\<close>\<close>

record Header =
  Sym :: string
  Entry :: node_ptr

text \<open>
  The mutable memory a call of \<^verbatim>\<open>First\<close> can reach: the allocated nodes and headers (the
  address of an object is its index), and the map \<^verbatim>\<open>visited map[*Node]bool\<close>, which Go
  passes by reference, so that every recursive call writes to the same map.
\<close>

record state =
  nodes :: "Node list"
  headers :: "Header list"
  visited :: "nat \<rightharpoonup> bool"

datatype error =
  Nil_Dereference  \<comment> \<open>Go's run-time panic for reading a field through \<^verbatim>\<open>nil\<close>\<close>
| Bad_Address      \<comment> \<open>an address that is not allocated; no Go pointer has one\<close>

definition deref_node :: "state \<Rightarrow> nat \<Rightarrow> Node option" where
  "deref_node s a = (if a < length (nodes s) then Some (nodes s ! a) else None)"

definition deref_header :: "state \<Rightarrow> nat \<Rightarrow> Header option" where
  "deref_header s b = (if b < length (headers s) then Some (headers s ! b) else None)"

text \<open>\<^verbatim>\<open>visited[node]\<close>: reading a key that is not in a Go map gives the zero value, \<^verbatim>\<open>false\<close>.\<close>

definition visited_at :: "state \<Rightarrow> nat \<Rightarrow> bool" where
  "visited_at s a = (case visited s a of None \<Rightarrow> False | Some b \<Rightarrow> b)"

text \<open>\<^verbatim>\<open>visited[node] = true\<close>\<close>

definition mark_visited :: "nat \<Rightarrow> state \<Rightarrow> state" where
  "mark_visited a s = s\<lparr>visited := (visited s)(a \<mapsto> True)\<rparr>"

section \<open>The FIRST-set walk\<close>

text \<open>
  \<^verbatim>\<open>func (node *Node) First(visited map[*Node]bool) map[string]bool\<close> and
  \<^verbatim>\<open>func (h *Header) First(visited map[*Node]bool) map[string]bool\<close>.

  The result maps of type \<^verbatim>\<open>map[string]bool\<close> are created inside the two methods and only
  ever receive the value \<^verbatim>\<open>true\<close>; they are modelled by their key sets. Both methods return
  the memory they leave behind. \<open>Node_First\<close> reads \<^verbatim>\<open>node.Alt\<close> after the recursive call
  on \<^verbatim>\<open>node.Nsym\<close>, hence from the memory that call returns.
\<close>

function (domintros)
  Node_First :: "state \<Rightarrow> node_ptr \<Rightarrow> error + (string set \<times> state)" and
  Header_First :: "state \<Rightarrow> header_ptr \<Rightarrow> error + (string set \<times> state)"
where
  "Node_First s node =
     (case node of
        None \<Rightarrow> Inr ({}, s)
      | Some a \<Rightarrow>
          if visited_at s a then Inr ({}, s)
          else
            let s1 = mark_visited a s in
            (case deref_node s1 a of
               None \<Rightarrow> Inl Bad_Address
             | Some n \<Rightarrow>
                 (case (if Terminal n then Inr ({Tsym n}, s1)
                        else (case Nsym n of
                                None \<Rightarrow> Inr ({}, s1)
                              | Some b \<Rightarrow>
                                  (case deref_header s1 b of
                                     None \<Rightarrow> Inl Bad_Address
                                   | Some h \<Rightarrow>
                                       if Entry h \<noteq> None then Header_First s1 (Nsym n)
                                       else Inr ({}, s1)))) of
                    Inl e \<Rightarrow> Inl e
                  | Inr (syms, s2) \<Rightarrow>
                      (case deref_node s2 a of
                         None \<Rightarrow> Inl Bad_Address
                       | Some n2 \<Rightarrow>
                           if Alt n2 \<noteq> None then
                             (case Node_First s2 (Alt n2) of
                                Inl e \<Rightarrow> Inl e
                              | Inr (syms2, s3) \<Rightarrow> Inr (syms \<union> syms2, s3))
                           else Inr (syms, s2)))))"
| "Header_First s h =
     (case h of
        None \<Rightarrow> Inl Nil_Dereference
      | Some b \<Rightarrow>
          (case deref_header s b of
             None \<Rightarrow> Inl Bad_Address
           | Some hdr \<Rightarrow>
               (case Node_First s (Entry hdr) of
                  Inl e \<Rightarrow> Inl e
                | Inr (syms, s') \<Rightarrow> Inr (syms, s'))))"
  by pat_completeness auto

text \<open>
  \<open>extends s s'\<close>: the memory \<open>s'\<close> has the nodes and headers of \<open>s\<close>, and every node
  visited in \<open>s\<close> is visited in \<open>s'\<close>.
\<close>

definition extends :: "state \<Rightarrow> state \<Rightarrow> bool" where
  "extends s s' \<longleftrightarrow>
     nodes s' = nodes s \<and> headers s' = headers s \<and> (\<forall>a. visited_at s a \<longrightarrow> visited_at s' a)"

definition unvisited :: "state \<Rightarrow> nat set" where
  "unvisited s = {a. a < length (nodes s) \<and> \<not> visited_at s a}"

text \<open>
  The statement of lines 145 to 153 of \<^verbatim>\<open>Node.First\<close>, on the node \<open>n\<close> read from memory
  \<open>s1\<close>: what the node's own symbol contributes.
\<close>

definition symbol_part :: "state \<Rightarrow> Node \<Rightarrow> error + (string set \<times> state)" where
  "symbol_part s1 n =
     (if Terminal n then Inr ({Tsym n}, s1)
      else (case Nsym n of
              None \<Rightarrow> Inr ({}, s1)
            | Some b \<Rightarrow>
                (case deref_header s1 b of
                   None \<Rightarrow> Inl Bad_Address
                 | Some h \<Rightarrow>
                     if Entry h \<noteq> None then Header_First s1 (Nsym n)
                     else Inr ({}, s1))))"

text \<open>The termination measure: the number of unvisited nodes, then the method.\<close>

definition First_measure :: "state \<times> node_ptr + state \<times> header_ptr \<Rightarrow> nat \<times> nat" where
  "First_measure x =
     (case x of Inl (s, p) \<Rightarrow> (card (unvisited s), 0) | Inr (s, h) \<Rightarrow> (card (unvisited s), 1))"

section \<open>Calls with a fresh visited map\<close>

text \<open>
  \<^verbatim>\<open>start.First(map[*Node]bool{})\<close>, as \<^verbatim>\<open>main\<close> calls it: the walk starts with an empty
  map, and the caller keeps the set of symbols.
\<close>

definition fresh :: "state \<Rightarrow> state" where
  "fresh s = s\<lparr>visited := Map.empty\<rparr>"

definition symbols_of :: "error + (string set \<times> state) \<Rightarrow> error + string set" where
  "symbols_of r = (case r of Inl e \<Rightarrow> Inl e | Inr (syms, s') \<Rightarrow> Inr syms)"

definition Node_first_set :: "state \<Rightarrow> node_ptr \<Rightarrow> error + string set" where
  "Node_first_set s p = symbols_of (Node_First (fresh s) p)"

definition Header_first_set :: "state \<Rightarrow> header_ptr \<Rightarrow> error + string set" where
  "Header_first_set s h = symbols_of (Header_First (fresh s) h)"

section \<open>Well-formed memories and the graph they hold\<close>

text \<open>
  A Go pointer is \<^verbatim>\<open>nil\<close> or points to an allocated object. The walk follows the
  pointers \<^verbatim>\<open>Nsym\<close>, \<^verbatim>\<open>Alt\<close> and \<^verbatim>\<open>Entry\<close>; \<open>wf_state\<close> says that each of them is
  \<^verbatim>\<open>nil\<close> or allocated.
\<close>

definition node_ptr_ok :: "state \<Rightarrow> node_ptr \<Rightarrow> bool" where
  "node_ptr_ok s p = (case p of None \<Rightarrow> True | Some a \<Rightarrow> a < length (nodes s))"

definition header_ptr_ok :: "state \<Rightarrow> header_ptr \<Rightarrow> bool" where
  "header_ptr_ok s h = (case h of None \<Rightarrow> True | Some b \<Rightarrow> b < length (headers s))"

definition wf_state :: "state \<Rightarrow> bool" where
  "wf_state s \<longleftrightarrow>
     list_all (\<lambda>n. header_ptr_ok s (Nsym n) \<and> node_ptr_ok s (Alt n)) (nodes s) \<and>
     list_all (\<lambda>h. node_ptr_ok s (Entry h)) (headers s)"

text \<open>
  The node that \<^verbatim>\<open>node.Nsym.First(visited)\<close> walks from: \<^verbatim>\<open>node.Nsym.Entry\<close>, when the node
  is not a terminal and the guard \<^verbatim>\<open>node.Nsym != nil && node.Nsym.Entry != nil\<close> holds.
\<close>

definition entry_of :: "state \<Rightarrow> Node \<Rightarrow> node_ptr" where
  "entry_of s n =
     (if Terminal n then None
      else (case Nsym n of
              None \<Rightarrow> None
            | Some b \<Rightarrow> (case deref_header s b of None \<Rightarrow> None | Some h \<Rightarrow> Entry h)))"

text \<open>The links the walk follows: from a node to its header's entry and to its alternative.\<close>

definition edges :: "state \<Rightarrow> (nat \<times> nat) set" where
  "edges s = {(a, b). \<exists>n. deref_node s a = Some n \<and> (entry_of s n = Some b \<or> Alt n = Some b)}"

text \<open>
  The nodes that a walk from \<open>x\<close> reaches along the links \<open>E\<close> without entering the set \<open>V\<close>
  (the nodes already visited).
\<close>

definition reach :: "(nat \<times> nat) set \<Rightarrow> nat set \<Rightarrow> nat \<Rightarrow> nat set" where
  "reach E V x = {y. x \<notin> V \<and> (x, y) \<in> (E \<inter> (- V) \<times> (- V))\<^sup>*}"

definition reach_ptr :: "(nat \<times> nat) set \<Rightarrow> nat set \<Rightarrow> node_ptr \<Rightarrow> nat set" where
  "reach_ptr E V p = (case p of None \<Rightarrow> {} | Some x \<Rightarrow> reach E V x)"

definition visited_set :: "state \<Rightarrow> nat set" where
  "visited_set s = {a. visited_at s a}"

text \<open>The symbols of the terminal nodes among the addresses \<open>X\<close>.\<close>

definition terminals :: "state \<Rightarrow> nat set \<Rightarrow> string set" where
  "terminals s X = {Tsym n | a n. a \<in> X \<and> deref_node s a = Some n \<and> Terminal n}"

section \<open>Building a graph: the example grammars\<close>

text \<open>
  \<^verbatim>\<open>&Node{...}\<close> and \<^verbatim>\<open>&Header{...}\<close> allocate a new object and return its address; the
  fields a composite literal leaves out have Go's zero values (\<^verbatim>\<open>false\<close>, the empty
  string, \<^verbatim>\<open>nil\<close>).
\<close>

definition new_Node :: "Node \<Rightarrow> state \<Rightarrow> nat \<times> state" where
  "new_Node n s = (length (nodes s), s\<lparr>nodes := nodes s @ [n]\<rparr>)"

definition new_Header :: "Header \<Rightarrow> state \<Rightarrow> nat \<times> state" where
  "new_Header h s = (length (headers s), s\<lparr>headers := headers s @ [h]\<rparr>)"

text \<open>
  The assignments \<^verbatim>\<open>h.Entry = p\<close>, \<^verbatim>\<open>n.Alt = p\<close> and \<^verbatim>\<open>n.Suc = p\<close> through an allocated
  address.
\<close>

definition set_Entry :: "nat \<Rightarrow> node_ptr \<Rightarrow> state \<Rightarrow> state" where
  "set_Entry b p s = s\<lparr>headers := (headers s)[b := (headers s ! b)\<lparr>Entry := p\<rparr>]\<rparr>"

definition set_Alt :: "nat \<Rightarrow> node_ptr \<Rightarrow> state \<Rightarrow> state" where
  "set_Alt a p s = s\<lparr>nodes := (nodes s)[a := (nodes s ! a)\<lparr>Alt := p\<rparr>]\<rparr>"

definition set_Suc :: "nat \<Rightarrow> node_ptr \<Rightarrow> state \<Rightarrow> state" where
  "set_Suc a p s = s\<lparr>nodes := (nodes s)[a := (nodes s ! a)\<lparr>Suc_ptr := p\<rparr>]\<rparr>"

definition empty_state :: state where
  "empty_state = \<lparr>nodes = [], headers = [], visited = Map.empty\<rparr>"

text \<open>The Go string literal for the empty symbol: the two bytes of U+03B5 in UTF-8.\<close>

definition epsilon :: string where
  "epsilon = [CHR 0xCE, CHR 0xB5]"

text \<open>
  \<^verbatim>\<open>func example5() *Header\<close>: the grammar \<^verbatim>\<open>A ::= 'x' | '(' B ')'\<close>, \<^verbatim>\<open>B ::= A C\<close>,
  \<^verbatim>\<open>C ::= { '+' A }\<close>. The model returns the memory it has built with the start symbol.
\<close>

definition example5 :: "state \<times> header_ptr" where
  "example5 =
     (let s = empty_state;
          (empty, s) = new_Node \<lparr>Terminal = True, Tsym = epsilon, Nsym = None, Suc_ptr = None, Alt = None\<rparr> s;
          (lParen, s) = new_Node \<lparr>Terminal = True, Tsym = ''('', Nsym = None, Suc_ptr = None, Alt = None\<rparr> s;
          (plus, s) = new_Node \<lparr>Terminal = True, Tsym = ''+'', Nsym = None, Suc_ptr = None, Alt = None\<rparr> s;
          (rParen, s) = new_Node \<lparr>Terminal = True, Tsym = '')'', Nsym = None, Suc_ptr = None, Alt = None\<rparr> s;
          (x, s) = new_Node \<lparr>Terminal = True, Tsym = ''x'', Nsym = None, Suc_ptr = None, Alt = None\<rparr> s;
          (A, s) = new_Header \<lparr>Sym = ''A'', Entry = None\<rparr> s;
          (B, s) = new_Header \<lparr>Sym = ''B'', Entry = None\<rparr> s;
          (C, s) = new_Header \<lparr>Sym = ''C'', Entry = None\<rparr> s;
          s = set_Entry A (Some x) s;
          s = set_Alt x (Some lParen) s;
          (n1, s) = new_Node \<lparr>Terminal = False, Tsym = [], Nsym = Some A, Suc_ptr = Some rParen, Alt = None\<rparr> s;
          s = set_Suc lParen (Some n1) s;
          (n2, s) = new_Node \<lparr>Terminal = False, Tsym = [], Nsym = Some C, Suc_ptr = None, Alt = None\<rparr> s;
          (n3, s) = new_Node \<lparr>Terminal = False, Tsym = [], Nsym = Some A, Suc_ptr = Some n2, Alt = None\<rparr> s;
          s = set_Entry B (Some n3) s;
          s = set_Entry C (Some plus) s;
          s = set_Alt plus (Some empty) s;
          (n4, s) = new_Node \<lparr>Terminal = False, Tsym = [], Nsym = Some A, Suc_ptr = Some plus, Alt = None\<rparr> s;
          s = set_Suc plus (Some n4) s
      in (s, Some A))"

text \<open>
  \<^verbatim>\<open>func example5reduced() *Header\<close>: the grammar \<^verbatim>\<open>A ::= 'x' | '(' A { '+' A } ')'\<close>.
\<close>

definition example5reduced :: "state \<times> header_ptr" where
  "example5reduced =
     (let s = empty_state;
          (A, s) = new_Header \<lparr>Sym = ''A'', Entry = None\<rparr> s;
          (x, s) = new_Node \<lparr>Terminal = True, Tsym = ''x'', Nsym = None, Suc_ptr = None, Alt = None\<rparr> s;
          (lParen, s) = new_Node \<lparr>Terminal = True, Tsym = ''('', Nsym = None, Suc_ptr = None, Alt = None\<rparr> s;
          (empty, s) = new_Node \<lparr>Terminal = True, Tsym = epsilon, Nsym = None, Suc_ptr = None, Alt = None\<rparr> s;
          (plus, s) = new_Node \<lparr>Terminal = True, Tsym = ''+'', Nsym = None, Suc_ptr = None, Alt = None\<rparr> s;
          (rParen, s) = new_Node \<lparr>Terminal = True, Tsym = '')'', Nsym = None, Suc_ptr = None, Alt = None\<rparr> s;
          s = set_Entry A (Some lParen) s;
          s = set_Alt lParen (Some x) s;
          (n1, s) = new_Node \<lparr>Terminal = False, Tsym = [], Nsym = Some A, Suc_ptr = Some plus, Alt = None\<rparr> s;
          s = set_Suc lParen (Some n1) s;
          s = set_Alt plus (Some empty) s;
          (n2, s) = new_Node \<lparr>Terminal = False, Tsym = [], Nsym = Some A, Suc_ptr = Some plus, Alt = None\<rparr> s;
          s = set_Suc plus (Some n2) s;
          s = set_Suc empty (Some rParen) s
      in (s, Some A))"

section \<open>Properties of the walk\<close>

subsection \<open>Termination: every recursive call sees fewer unvisited nodes\<close>

lemma extends_refl: "extends s s"
  by (simp add: extends_def)

lemma extends_trans: "extends s t \<Longrightarrow> extends t u \<Longrightarrow> extends s u"
  by (simp add: extends_def)

lemma extends_mark: "extends s (mark_visited a s)"
  by (simp add: extends_def mark_visited_def visited_at_def)

lemma visited_at_mark: "visited_at (mark_visited a s) b \<longleftrightarrow> b = a \<or> visited_at s b"
  by (simp add: mark_visited_def visited_at_def)

lemma deref_node_mark: "deref_node (mark_visited a s) b = deref_node s b"
  by (simp add: mark_visited_def deref_node_def)

lemma deref_header_mark: "deref_header (mark_visited a s) b = deref_header s b"
  by (simp add: mark_visited_def deref_header_def)

lemma extends_deref_node: "extends s s' \<Longrightarrow> deref_node s' a = deref_node s a"
  by (simp add: extends_def deref_node_def)

lemma extends_deref_header: "extends s s' \<Longrightarrow> deref_header s' a = deref_header s a"
  by (simp add: extends_def deref_header_def)

lemma extends_visited_at: "extends s s' \<Longrightarrow> visited_at s a \<Longrightarrow> visited_at s' a"
  by (simp add: extends_def)

lemma Node_First_psimp:
  assumes "Node_First_Header_First_dom (Inl (s, node))"
  shows "Node_First s node =
     (case node of
        None \<Rightarrow> Inr ({}, s)
      | Some a \<Rightarrow>
          if visited_at s a then Inr ({}, s)
          else
            (case deref_node s a of
               None \<Rightarrow> Inl Bad_Address
             | Some n \<Rightarrow>
                 (case symbol_part (mark_visited a s) n of
                    Inl e \<Rightarrow> Inl e
                  | Inr (syms, s2) \<Rightarrow>
                      (case deref_node s2 a of
                         None \<Rightarrow> Inl Bad_Address
                       | Some n2 \<Rightarrow>
                           if Alt n2 \<noteq> None then
                             (case Node_First s2 (Alt n2) of
                                Inl e \<Rightarrow> Inl e
                              | Inr (syms2, s3) \<Rightarrow> Inr (syms \<union> syms2, s3))
                           else Inr (syms, s2)))))"
  unfolding symbol_part_def
  by (subst Node_First.psimps[OF assms])
    (simp add: Let_def deref_node_mark cong: option.case_cong if_cong)

lemma symbol_part_extends_dom:
  assumes "symbol_part s1 n = Inr (syms, s2)"
    and "\<And>b h s' syms'. \<lbrakk>\<not> Terminal n; Nsym n = Some b; deref_header s1 b = Some h;
           Entry h \<noteq> None; Header_First s1 (Nsym n) = Inr (syms', s')\<rbrakk> \<Longrightarrow> extends s1 s'"
  shows "extends s1 s2"
  using assms
  by (auto simp: symbol_part_def extends_refl split: if_splits option.splits)

lemma First_extends_dom:
  "Node_First_Header_First_dom (Inl (s, p)) \<Longrightarrow> Node_First s p = Inr (syms, s') \<Longrightarrow> extends s s'"
  "Node_First_Header_First_dom (Inr (t, h)) \<Longrightarrow> Header_First t h = Inr (syms', t') \<Longrightarrow> extends t t'"
proof (induct s p and t h arbitrary: syms s' and syms' t' rule: Node_First_Header_First.pinduct)
  case (1 s node)
  note eq = Node_First_psimp[OF 1(1)] and res = \<open>Node_First s node = Inr (syms, s')\<close>
  show ?case
  proof (cases node)
    case None
    with eq res show ?thesis by (simp add: extends_refl)
  next
    case (Some a)
    show ?thesis
    proof (cases "visited_at s a")
      case True
      with Some eq res show ?thesis by (simp add: extends_refl)
    next
      case False
      let ?s1 = "mark_visited a s"
      from eq res Some False obtain n where n: "deref_node s a = Some n"
        by (auto split: option.splits)
      then have n1: "deref_node ?s1 a = Some n"
        by (simp add: deref_node_mark)
      from eq res Some False n obtain syms1 s2 where mid: "symbol_part ?s1 n = Inr (syms1, s2)"
        by (auto split: sum.splits)
      have e12: "extends ?s1 s2"
        using mid
      proof (rule symbol_part_extends_dom)
        fix b h t syms'
        assume "\<not> Terminal n" "Nsym n = Some b" "deref_header ?s1 b = Some h" "Entry h \<noteq> None"
          "Header_First ?s1 (Nsym n) = Inr (syms', t)"
        then show "extends ?s1 t"
          by (rule 1(2)[OF Some False refl n1])
      qed
      from eq res Some False n mid obtain n2 where n2: "deref_node s2 a = Some n2"
        by (auto split: option.splits)
      have e23: "extends s2 s'"
      proof (cases "Alt n2")
        case None
        with eq res \<open>node = Some a\<close> False n mid n2 show ?thesis
          by (simp add: extends_refl)
      next
        case (Some m)
        with eq res \<open>node = Some a\<close> False n mid n2 obtain syms2 where
          "Node_First s2 (Alt n2) = Inr (syms2, s')"
          by (auto split: sum.splits)
        moreover have "Alt n2 \<noteq> None"
          using Some by simp
        ultimately show ?thesis
          using 1(3)[OF \<open>node = Some a\<close> False refl n1 mid[unfolded symbol_part_def] refl n2]
          by blast
      qed
      from extends_mark e12 e23 show ?thesis
        by (blast intro: extends_trans)
    qed
  qed
next
  case (2 s h)
  from 2(1,3) show ?case
    by (auto simp: Header_First.psimps extends_refl split: option.splits sum.splits dest: 2(2))
qed

lemma finite_unvisited: "finite (unvisited s)"
  by (simp add: unvisited_def)

lemma extends_unvisited: "extends s s' \<Longrightarrow> unvisited s' \<subseteq> unvisited s"
  by (auto simp: extends_def unvisited_def)

lemma unvisited_mark:
  assumes "deref_node s a = Some n" and "\<not> visited_at s a"
  shows "unvisited (mark_visited a s) \<subset> unvisited s"
proof -
  have "nodes (mark_visited a s) = nodes s"
    by (simp add: mark_visited_def)
  then have sub: "unvisited (mark_visited a s) \<subseteq> unvisited s"
    by (auto simp: unvisited_def visited_at_mark)
  from assms(1) have "a < length (nodes s)"
    by (simp add: deref_node_def split: if_splits)
  with assms(2) have "a \<in> unvisited s"
    by (simp add: unvisited_def)
  moreover have "a \<notin> unvisited (mark_visited a s)"
    by (simp add: unvisited_def visited_at_mark)
  ultimately show ?thesis
    using sub by blast
qed

lemma card_unvisited_mark:
  "deref_node s a = Some n \<Longrightarrow> \<not> visited_at s a \<Longrightarrow>
   extends (mark_visited a s) s' \<Longrightarrow> card (unvisited s') < card (unvisited s)"
  using psubset_card_mono[OF finite_unvisited, of "unvisited s'" s]
    extends_unvisited[of "mark_visited a s" s'] unvisited_mark[of s a n]
  by blast

termination Node_First
proof (relation "inv_image (less_than <*lex*> less_than) First_measure")
  show "wf (inv_image (less_than <*lex*> less_than) First_measure)"
    by (intro wf_inv_image wf_lex_prod wf_less_than)
next
  fix s :: state and node a s1 n
  assume "node = Some a" "\<not> visited_at s a" "s1 = mark_visited a s" "deref_node s1 a = Some n"
  then have "card (unvisited s1) < card (unvisited s)"
    using card_unvisited_mark[of s a n s1] by (simp add: deref_node_mark extends_refl)
  then show "(Inr (s1, Nsym n), Inl (s, node)) \<in> inv_image (less_than <*lex*> less_than) First_measure"
    by (simp add: First_measure_def)
next
  fix s :: state and node a s1 n res syms s2 and n2 :: Node
  assume a: "node = Some a" "\<not> visited_at s a" "s1 = mark_visited a s" "deref_node s1 a = Some n"
    and mid: "(if Terminal n then Inr ({Tsym n}, s1)
               else (case Nsym n of
                       None \<Rightarrow> Inr ({}, s1)
                     | Some b \<Rightarrow>
                         (case deref_header s1 b of
                            None \<Rightarrow> Inl Bad_Address
                          | Some h \<Rightarrow>
                              if Entry h \<noteq> None then Header_First s1 (Nsym n)
                              else Inr ({}, s1)))) = Inr res"
    and res: "(syms, s2) = res"
    and dom: "\<And>b h. \<lbrakk>\<not> Terminal n; Nsym n = Some b; deref_header s1 b = Some h;
                 Entry h \<noteq> None\<rbrakk> \<Longrightarrow> Node_First_Header_First_dom (Inr (s1, Nsym n))"
  have "symbol_part s1 n = Inr (syms, s2)"
    using mid res by (simp add: symbol_part_def)
  then have "extends s1 s2"
    by (rule symbol_part_extends_dom) (blast intro: First_extends_dom(2) dom)
  then have "card (unvisited s2) < card (unvisited s)"
    using card_unvisited_mark[of s a n s2] a by (simp add: deref_node_mark)
  then show "(Inl (s2, Alt n2), Inl (s, node)) \<in> inv_image (less_than <*lex*> less_than) First_measure"
    by (simp add: First_measure_def)
next
  fix s :: state and h :: header_ptr and hdr :: Header
  show "(Inl (s, Entry hdr), Inr (s, h)) \<in> inv_image (less_than <*lex*> less_than) First_measure"
    by (simp add: First_measure_def)
qed

declare Node_First.simps [simp del] Header_First.simps [simp del]

lemma First_total:
  "Node_First_Header_First_dom (Inl (s, p))" "Node_First_Header_First_dom (Inr (t, h))"
proof (induct s p and t h rule: Node_First_Header_First.induct)
  case (1 s node)
  show ?case
  proof (rule Node_First_Header_First.domintros(1))
    fix a n b hdr e
    assume "node = Some a" "\<not> visited_at s a" "deref_node (mark_visited a s) a = Some n"
      "\<not> Terminal n" "Nsym n = Some b" "deref_header (mark_visited a s) b = Some hdr"
      "Entry hdr = Some e"
    then show "Node_First_Header_First_dom (Inr (mark_visited a s, Some b))"
      using 1(1)[of a "mark_visited a s" n b hdr] by simp
  next
    fix a n syms s2 n2 m
    assume "node = Some a" "\<not> visited_at s a" "deref_node (mark_visited a s) a = Some n"
      "(if Terminal n then Inr ({Tsym n}, mark_visited a s)
        else case Nsym n of None \<Rightarrow> Inr ({}, mark_visited a s)
             | Some b \<Rightarrow>
                 (case deref_header (mark_visited a s) b of
                 None \<Rightarrow> Inl Bad_Address
                 | Some h \<Rightarrow>
                     if Entry h \<noteq> None
                     then Header_First (mark_visited a s) (Nsym n)
                     else Inr ({}, mark_visited a s))) =
       Inr (syms, s2)" "deref_node s2 a = Some n2" "Alt n2 = Some m"
    then show "Node_First_Header_First_dom (Inl (s2, Some m))"
      using 1(2)[of a "mark_visited a s" n "(syms, s2)" syms s2 n2] by simp
  qed
next
  case (2 s h)
  show ?case
    by (rule Node_First_Header_First.domintros(2)) (rule 2)
qed

subsection \<open>The walk, one step at a time\<close>

lemma First_extends:
  "Node_First s p = Inr (syms, s') \<Longrightarrow> extends s s'"
  "Header_First t h = Inr (syms', t') \<Longrightarrow> extends t t'"
  by (rule First_extends_dom(1)[OF First_total(1)] First_extends_dom(2)[OF First_total(2)], assumption)+

lemma symbol_part_extends: "symbol_part s1 n = Inr (syms, s2) \<Longrightarrow> extends s1 s2"
  by (erule symbol_part_extends_dom) (rule First_extends(2))

lemma Node_First_nil: "Node_First s None = Inr ({}, s)"
  by (subst Node_First.psimps[OF First_total(1)]) simp

lemma Node_First_visited: "visited_at s a \<Longrightarrow> Node_First s (Some a) = Inr ({}, s)"
  by (subst Node_First.psimps[OF First_total(1)]) simp

lemma Node_First_bad: "\<not> visited_at s a \<Longrightarrow> deref_node s a = None \<Longrightarrow> Node_First s (Some a) = Inl Bad_Address"
  by (subst Node_First_psimp[OF First_total(1)]) simp

lemma Node_First_step:
  assumes "\<not> visited_at s a" and "deref_node s a = Some n"
  shows "Node_First s (Some a) =
     (case symbol_part (mark_visited a s) n of
        Inl e \<Rightarrow> Inl e
      | Inr (syms, s2) \<Rightarrow>
          if Alt n \<noteq> None then
            (case Node_First s2 (Alt n) of
               Inl e \<Rightarrow> Inl e
             | Inr (syms2, s3) \<Rightarrow> Inr (syms \<union> syms2, s3))
          else Inr (syms, s2))"
proof (cases "symbol_part (mark_visited a s) n")
  case (Inl e)
  with assms show ?thesis
    by (subst Node_First_psimp[OF First_total(1)]) simp
next
  case (Inr r)
  obtain syms s2 where r: "r = (syms, s2)"
    by (cases r)
  from Inr r have "extends (mark_visited a s) s2"
    by (simp add: symbol_part_extends)
  then have "deref_node s2 a = Some n"
    using assms(2) by (simp add: extends_deref_node deref_node_mark)
  with assms Inr r show ?thesis
    by (subst Node_First_psimp[OF First_total(1)]) simp
qed

lemma Header_First_nil: "Header_First s None = Inl Nil_Dereference"
  by (subst Header_First.psimps[OF First_total(2)]) simp

lemma Header_First_bad: "deref_header s b = None \<Longrightarrow> Header_First s (Some b) = Inl Bad_Address"
  by (subst Header_First.psimps[OF First_total(2)]) simp

lemma Header_First_step:
  "deref_header s b = Some hdr \<Longrightarrow> Header_First s (Some b) = Node_First s (Entry hdr)"
  by (subst Header_First.psimps[OF First_total(2)]) (simp split: sum.split)


lemma nodes_mark: "nodes (mark_visited a s) = nodes s"
  by (simp add: mark_visited_def)

lemma headers_mark: "headers (mark_visited a s) = headers s"
  by (simp add: mark_visited_def)

lemma nodes_fresh: "nodes (fresh s) = nodes s"
  by (simp add: fresh_def)

lemma headers_fresh: "headers (fresh s) = headers s"
  by (simp add: fresh_def)

lemma visited_at_fresh: "\<not> visited_at (fresh s) a"
  by (simp add: fresh_def visited_at_def)

lemma extends_fresh: "extends (fresh s) s' \<Longrightarrow> fresh s' = fresh s"
  by (simp add: extends_def fresh_def)

lemma Node_First_run:
  "Node_First s (Some a) =
     (if visited_at s a then Inr ({}, s)
      else if a < length (nodes s) then
        (case symbol_part (mark_visited a s) (nodes s ! a) of
           Inl e \<Rightarrow> Inl e
         | Inr (syms, s2) \<Rightarrow>
             if Alt (nodes s ! a) \<noteq> None then
               (case Node_First s2 (Alt (nodes s ! a)) of
                  Inl e \<Rightarrow> Inl e
                | Inr (syms2, s3) \<Rightarrow> Inr (syms \<union> syms2, s3))
             else Inr (syms, s2))
      else Inl Bad_Address)"
  by (simp add: Node_First_visited Node_First_bad Node_First_step deref_node_def)

lemma Header_First_run:
  "Header_First s (Some b) =
     (if b < length (headers s) then Node_First s (Entry (headers s ! b)) else Inl Bad_Address)"
  by (simp add: Header_First_step Header_First_bad deref_header_def)

lemmas First_run = Node_First_run Node_First_nil Header_First_run Header_First_nil
  symbol_part_def deref_header_def nodes_mark headers_mark nodes_fresh headers_fresh
  visited_at_mark visited_at_fresh

subsection \<open>The memories of the two examples\<close>

lemma example5_eq: "example5 =
  (\<lparr>nodes =
    [\<lparr>Terminal = True, Tsym = epsilon, Nsym = None, Suc_ptr = None, Alt = None\<rparr>,
     \<lparr>Terminal = True, Tsym = ''('', Nsym = None, Suc_ptr = Some 5, Alt = None\<rparr>,
     \<lparr>Terminal = True, Tsym = ''+'', Nsym = None, Suc_ptr = Some 8, Alt = Some 0\<rparr>,
     \<lparr>Terminal = True, Tsym = '')'', Nsym = None, Suc_ptr = None, Alt = None\<rparr>,
     \<lparr>Terminal = True, Tsym = ''x'', Nsym = None, Suc_ptr = None, Alt = Some 1\<rparr>,
     \<lparr>Terminal = False, Tsym = [], Nsym = Some 0, Suc_ptr = Some 3, Alt = None\<rparr>,
     \<lparr>Terminal = False, Tsym = [], Nsym = Some 2, Suc_ptr = None, Alt = None\<rparr>,
     \<lparr>Terminal = False, Tsym = [], Nsym = Some 0, Suc_ptr = Some 6, Alt = None\<rparr>,
     \<lparr>Terminal = False, Tsym = [], Nsym = Some 0, Suc_ptr = Some 2, Alt = None\<rparr>],
    headers =
      [\<lparr>Sym = ''A'', Entry = Some 4\<rparr>, \<lparr>Sym = ''B'', Entry = Some 7\<rparr>,
       \<lparr>Sym = ''C'', Entry = Some 2\<rparr>],
    visited = Map.empty\<rparr>, Some 0)"
  by (simp add: example5_def empty_state_def new_Node_def new_Header_def set_Entry_def
      set_Alt_def set_Suc_def)

lemma example5reduced_eq: "example5reduced =
  (\<lparr>nodes =
    [\<lparr>Terminal = True, Tsym = ''x'', Nsym = None, Suc_ptr = None, Alt = None\<rparr>,
     \<lparr>Terminal = True, Tsym = ''('', Nsym = None, Suc_ptr = Some 5, Alt = Some 0\<rparr>,
     \<lparr>Terminal = True, Tsym = epsilon, Nsym = None, Suc_ptr = Some 4, Alt = None\<rparr>,
     \<lparr>Terminal = True, Tsym = ''+'', Nsym = None, Suc_ptr = Some 6, Alt = Some 2\<rparr>,
     \<lparr>Terminal = True, Tsym = '')'', Nsym = None, Suc_ptr = None, Alt = None\<rparr>,
     \<lparr>Terminal = False, Tsym = [], Nsym = Some 0, Suc_ptr = Some 3, Alt = None\<rparr>,
     \<lparr>Terminal = False, Tsym = [], Nsym = Some 0, Suc_ptr = Some 3, Alt = None\<rparr>],
    headers = [\<lparr>Sym = ''A'', Entry = Some 1\<rparr>], visited = Map.empty\<rparr>, Some 0)"
  by (simp add: example5reduced_def empty_state_def new_Node_def new_Header_def set_Entry_def
      set_Alt_def set_Suc_def)

section \<open>The claims\<close>

text \<open>
  C1: in the memory that \<open>example5reduced\<close> builds for \<^verbatim>\<open>A ::= 'x' | '(' A {'+' A} ')'\<close>,
  \<^verbatim>\<open>First\<close> on the header it returns, with an empty visited map, returns exactly the set
  of the two symbols \<^verbatim>\<open>x\<close> and \<^verbatim>\<open>(\<close>.
\<close>

theorem example5reduced_first:
  "Header_first_set (fst example5reduced) (snd example5reduced) = Inr {''x'', ''(''}"
  by (simp add: example5reduced_eq Header_first_set_def symbols_of_def First_run insert_commute)

text \<open>
  C6: in the memory that \<open>example5\<close> builds, the third header is \<^verbatim>\<open>C\<close>, its entry is the
  terminal \<^verbatim>\<open>+\<close>, whose alternative is the terminal for the empty symbol and whose
  successor leads back to \<^verbatim>\<open>+\<close> through a reference to \<^verbatim>\<open>A\<close>. \<^verbatim>\<open>First\<close> on \<^verbatim>\<open>C\<close> with an
  empty visited map returns, and returns exactly the symbols \<^verbatim>\<open>+\<close> and the empty symbol:
  the empty symbol is in the result like any other terminal.
\<close>

theorem example5_first_C:
  "Sym (headers (fst example5) ! 2) = ''C'' \<and>
   Header_first_set (fst example5) (Some 2) = Inr {''+'', epsilon}"
  by (simp add: example5_eq Header_first_set_def symbols_of_def First_run)

text \<open>
  C7: \<^verbatim>\<open>First\<close> on a \<^verbatim>\<open>nil\<close> node returns the empty set (and leaves the memory as it is),
  whatever the visited map holds.
\<close>

theorem Node_First_nil_empty:
  "Node_First s None = Inr ({}, s) \<and> Node_first_set s None = Inr {}"
  by (simp add: Node_First_nil Node_first_set_def symbols_of_def)

end
